theory Spec2Isabelle
  imports Complex_Main
begin

section \<open>Exceptions\<close>

text \<open>
  The HTTP exception classes of the framework that the services and controllers throw,
  each carrying its message, and \<open>Error\<close> for every other JavaScript error (a failure
  raised by the storage engine, for instance). The discriminators are the
  \<^verbatim>\<open>instanceof\<close> tests of the catch blocks. A function that may throw returns
  \<open>Exception + 'a\<close>, with \<open>Inl\<close> the exception thrown.

  The code has one class, \<open>UnauthorizedException\<close>, both for a failed login and for a
  mutation attempted by somebody who is not the owner.
\<close>

datatype Exception =
    is_BadRequest: BadRequestException string
  | is_Unauthorized: UnauthorizedException string
  | is_Forbidden: ForbiddenException string
  | is_NotFound: NotFoundException string
  | is_InternalServerError: InternalServerErrorException string
  | Error string

text \<open>
  \<^verbatim>\<open>try { body } catch (error) { if (keep error) throw error; throw new
  InternalServerErrorException(msg) }\<close>: the shape of every catch block of the services
  and controllers. A catch block without a test keeps nothing.
\<close>

definition try_catch :: "(Exception \<Rightarrow> bool) \<Rightarrow> string \<Rightarrow> Exception + 'a \<Rightarrow> Exception + 'a" where
  "try_catch keep msg r =
     (case r of
        Inl e \<Rightarrow> if keep e then Inl e else Inl (InternalServerErrorException msg)
      | Inr v \<Rightarrow> Inr v)"

section \<open>Entities\<close>

text \<open>
  \<^verbatim>\<open>class User { id; username (unique); password; authorPseudonym }\<close> and
  \<^verbatim>\<open>class Book { id; title; description; coverImage; price (decimal);
  isPublished (default true); author: User }\<close>. The field \<open>id\<close> is written
  \<open>user_id\<close> and \<open>book_id\<close>. A book is held the way the repository hands it out with
  \<^verbatim>\<open>relations: ['author']\<close>: with the joined author, or none when the reference
  is null.
\<close>

record User =
  user_id :: nat
  username :: string
  password :: string
  authorPseudonym :: string

record Book =
  book_id :: nat
  title :: string
  description :: string
  coverImage :: string
  price :: rat
  isPublished :: bool
  author :: "User option"

text \<open>
  \<^verbatim>\<open>Partial<Book>\<close> and \<open>Partial<User>\<close>: every property may be absent.
\<close>

record PartialBook =
  pb_id :: "nat option"
  pb_title :: "string option"
  pb_description :: "string option"
  pb_coverImage :: "string option"
  pb_price :: "rat option"
  pb_isPublished :: "bool option"
  pb_author :: "User option"

record PartialUser =
  pu_id :: "nat option"
  pu_username :: "string option"
  pu_password :: "string option"
  pu_authorPseudonym :: "string option"

text \<open>The object the middleware attaches to a request: \<^verbatim>\<open>{ id: decoded.sub }\<close>.\<close>

record ReqUser =
  req_id :: nat

section \<open>The repositories\<close>

text \<open>
  The object-relational mapper is not part of the sources. Its two repositories are
  modelled as tables, lists of rows in insertion order, with the operations the services
  call. A generated primary key is one more than the largest key in the table: the
  model has no operation that deletes a row, and the key the storage engine generates
  differs from this one only after the row with the largest key has been deleted.
\<close>

definition fresh_id :: "nat list \<Rightarrow> nat" where
  "fresh_id ids = Suc (foldr max ids 0)"

definition or_else :: "'a option \<Rightarrow> 'a \<Rightarrow> 'a" where
  "or_else x d = (case x of None \<Rightarrow> d | Some v \<Rightarrow> v)"

text \<open>\<^verbatim>\<open>Object.assign(book, bookData)\<close>: every property present in the source
  object overwrites the target's.\<close>

definition Object_assign :: "Book \<Rightarrow> PartialBook \<Rightarrow> Book" where
  "Object_assign b p =
     \<lparr> book_id = or_else (pb_id p) (book_id b),
       title = or_else (pb_title p) (title b),
       description = or_else (pb_description p) (description b),
       coverImage = or_else (pb_coverImage p) (coverImage b),
       price = or_else (pb_price p) (price b),
       isPublished = or_else (pb_isPublished p) (isPublished b),
       author = (case pb_author p of None \<Rightarrow> author b | Some u \<Rightarrow> Some u) \<rparr>"

text \<open>\<^verbatim>\<open>booksRepository.findOne({ where: { id }, relations: ['author'] })\<close>.\<close>

definition books_findOne :: "Book list \<Rightarrow> nat \<Rightarrow> Book option" where
  "books_findOne rows i = find (\<lambda>b. book_id b = i) rows"

text \<open>
  Writing an entity to the table: the row with the entity's primary key is replaced, and
  an entity whose key is not in the table is appended.
\<close>

definition books_write :: "Book list \<Rightarrow> Book \<Rightarrow> Book list" where
  "books_write rows b =
     (if book_id b \<in> set (map book_id rows)
      then map (\<lambda>r. if book_id r = book_id b then b else r) rows
      else rows @ [b])"

text \<open>
  The author of a book is a foreign key into the users table: the storage engine refuses
  to write a book whose author is not the key of a user.
\<close>

definition foreign_key_ok :: "User list \<Rightarrow> Book \<Rightarrow> bool" where
  "foreign_key_ok users b =
     (case author b of None \<Rightarrow> True | Some a \<Rightarrow> user_id a \<in> set (map user_id users))"

text \<open>\<^verbatim>\<open>booksRepository.save(book)\<close> of a loaded entity; the entity saved is what
  the call returns.\<close>

definition books_save :: "User list \<Rightarrow> Book list \<Rightarrow> Book \<Rightarrow> Exception + (Book \<times> Book list)" where
  "books_save users rows b =
     (if foreign_key_ok users b
      then Inr (b, books_write rows b)
      else Inl (Error ''SQLITE_CONSTRAINT: FOREIGN KEY constraint failed''))"

text \<open>
  \<^verbatim>\<open>booksRepository.save(booksRepository.create(data))\<close>: when \<open>data\<close> names the key
  of a row, that row is updated with the properties present; otherwise a row is
  inserted, with a generated key unless one is given and \<open>isPublished\<close> defaulting to
  true. The columns \<open>title\<close>, \<open>description\<close>, \<open>coverImage\<close> and \<open>price\<close> are declared
  \<^verbatim>\<open>@Column()\<close> with no default and admit no NULL: an insert that lacks one of
  them fails in the storage engine.
\<close>

definition books_insert :: "User list \<Rightarrow> Book list \<Rightarrow> PartialBook \<Rightarrow> Exception + (Book \<times> Book list)" where
  "books_insert users rows p =
     (case (case pb_id p of None \<Rightarrow> None | Some i \<Rightarrow> books_findOne rows i) of
        Some old \<Rightarrow> books_save users rows (Object_assign old p)
      | None \<Rightarrow>
          (case (pb_title p, pb_description p, pb_coverImage p, pb_price p) of
             (Some t, Some d, Some c, Some pr) \<Rightarrow>
               books_save users rows
                 \<lparr> book_id = or_else (pb_id p) (fresh_id (map book_id rows)),
                   title = t, description = d, coverImage = c, price = pr,
                   isPublished = or_else (pb_isPublished p) True,
                   author = pb_author p \<rparr>
           | _ \<Rightarrow> Inl (Error ''SQLITE_CONSTRAINT: NOT NULL constraint failed'')))"

text \<open>\<^verbatim>\<open>usersRepository.findOne({ where: { id } })\<close> and
  \<^verbatim>\<open>usersRepository.findOne({ where: { username } })\<close>.\<close>

definition users_findOne_id :: "User list \<Rightarrow> nat \<Rightarrow> User option" where
  "users_findOne_id rows i = find (\<lambda>u. user_id u = i) rows"

definition users_findOne_username :: "User list \<Rightarrow> string \<Rightarrow> User option" where
  "users_findOne_username rows n = find (\<lambda>u. username u = n) rows"

section \<open>BooksService\<close>

text \<open>
  \<^verbatim>\<open>
  async create(user: User, bookData: Partial<Book>): Promise<Book> {
    try {
      const author = await this.usersRepository.findOne({ where: { id: user.id }, select: ['id', 'username'] });
      if (!author) throw new NotFoundException('Author not found');
      if (author.username === 'Darth Vader')
        throw new ForbiddenException('Darth Vader is not allowed to publish Wookie books.');
      const book = this.booksRepository.create({ ...bookData, author: author });
      return this.booksRepository.save(book);
    } catch (error) {
      if (error instanceof NotFoundException || error instanceof ForbiddenException) throw error;
      throw new InternalServerErrorException('An error occurred while creating the book');
    }
  }
  \<close>
  The result is the saved book together with the table after the call. The
  \<^verbatim>\<open>select\<close> option, which loads only two columns of the author, is not modelled:
  the author of the returned book is the whole row. The promise of \<open>save\<close> is returned
  without \<^verbatim>\<open>await\<close>: the \<^verbatim>\<open>try\<close> block is left before the save
  settles, so a failure of the save does not reach the catch block and leaves the service
  as the storage engine raised it. The same holds of \<open>update\<close> and \<open>remove\<close>.
\<close>

definition BooksService_create ::
  "User list \<Rightarrow> Book list \<Rightarrow> ReqUser \<Rightarrow> PartialBook \<Rightarrow> Exception + (Book \<times> Book list)" where
  "BooksService_create users books user bookData =
     (case try_catch (\<lambda>e. is_NotFound e \<or> is_Forbidden e) ''An error occurred while creating the book''
             (case users_findOne_id users (req_id user) of
                None \<Rightarrow> Inl (NotFoundException ''Author not found'')
              | Some a \<Rightarrow>
                  if username a = ''Darth Vader''
                  then Inl (ForbiddenException ''Darth Vader is not allowed to publish Wookie books.'')
                  else Inr (bookData\<lparr>pb_author := Some a\<rparr>)) of
        Inl e \<Rightarrow> Inl e
      | Inr book \<Rightarrow> books_insert users books book)"

text \<open>
  \<^verbatim>\<open>
  async update(user: User, id: number, bookData: Partial<Book>): Promise<Book> {
    try {
      const book = await this.booksRepository.findOne({ where: { id }, relations: ['author'] });
      if (!book) throw new NotFoundException('Book not found');
      if (!book?.author || book?.author?.id !== user.id)
        throw new UnauthorizedException('You are not authorized to update this book');
      Object.assign(book, bookData);
      return this.booksRepository.save(book);
    } catch (error) {
      if (error instanceof NotFoundException || error instanceof UnauthorizedException) throw error;
      throw new InternalServerErrorException('An error occurred while updating the book');
    }
  }
  \<close>
  \<open>owned_by book user\<close> is the negation of the test
  \<^verbatim>\<open>!book?.author || book?.author?.id !== user.id\<close>, which \<open>remove\<close> repeats.
\<close>

definition owned_by :: "Book \<Rightarrow> ReqUser \<Rightarrow> bool" where
  "owned_by book user = (case author book of None \<Rightarrow> False | Some a \<Rightarrow> user_id a = req_id user)"

definition BooksService_update ::
  "User list \<Rightarrow> Book list \<Rightarrow> ReqUser \<Rightarrow> nat \<Rightarrow> PartialBook \<Rightarrow> Exception + (Book \<times> Book list)" where
  "BooksService_update users books user i bookData =
     (case try_catch (\<lambda>e. is_NotFound e \<or> is_Unauthorized e) ''An error occurred while updating the book''
             (case books_findOne books i of
                None \<Rightarrow> Inl (NotFoundException ''Book not found'')
              | Some book \<Rightarrow>
                  if \<not> owned_by book user
                  then Inl (UnauthorizedException ''You are not authorized to update this book'')
                  else Inr (Object_assign book bookData)) of
        Inl e \<Rightarrow> Inl e
      | Inr book' \<Rightarrow> books_save users books book')"

text \<open>
  \<^verbatim>\<open>
  async remove(user: User, id: number): Promise<Book> {
    try {
      const book = await this.booksRepository.findOne({ where: { id }, relations: ['author'] });
      if (!book) throw new NotFoundException('Book not found');
      if (!book?.author || book?.author?.id !== user.id)
        throw new UnauthorizedException('You are not authorized to unpublish this book');
      book.isPublished = false;
      return this.booksRepository.save(book);
    } catch (error) {
      if (error instanceof NotFoundException || error instanceof UnauthorizedException) throw error;
      throw new InternalServerErrorException('An error occurred while unpublishing the book');
    }
  }
  \<close>
\<close>

definition BooksService_remove ::
  "User list \<Rightarrow> Book list \<Rightarrow> ReqUser \<Rightarrow> nat \<Rightarrow> Exception + (Book \<times> Book list)" where
  "BooksService_remove users books user i =
     (case try_catch (\<lambda>e. is_NotFound e \<or> is_Unauthorized e) ''An error occurred while unpublishing the book''
             (case books_findOne books i of
                None \<Rightarrow> Inl (NotFoundException ''Book not found'')
              | Some book \<Rightarrow>
                  if \<not> owned_by book user
                  then Inl (UnauthorizedException ''You are not authorized to unpublish this book'')
                  else Inr (book\<lparr>isPublished := False\<rparr>)) of
        Inl e \<Rightarrow> Inl e
      | Inr book' \<Rightarrow> books_save users books book')"

text \<open>
  A JavaScript condition on a string that may be absent, \<^verbatim>\<open>if (s)\<close>: true when
  the string is there and is not empty.
\<close>

definition truthy :: "string option \<Rightarrow> bool" where
  "truthy s = (case s of None \<Rightarrow> False | Some v \<Rightarrow> v \<noteq> [])"

text \<open>
  \<^verbatim>\<open>
  async findAll(search?: string): Promise<Book[]> {
    try {
      if (search) {
        return this.booksRepository.find({
          where: [{ title: search }, { description: search }], relations: ['author'] });
      }
      return this.booksRepository.find({ where: { isPublished: true }, relations: ['author'] });
    } catch (error) {
      throw new InternalServerErrorException('An error occurred while fetching books');
    }
  }
  \<close>
\<close>

definition BooksService_findAll :: "Book list \<Rightarrow> string option \<Rightarrow> Exception + Book list" where
  "BooksService_findAll books search =
     try_catch (\<lambda>e. False) ''An error occurred while fetching books''
       (if truthy search
        then Inr (filter (\<lambda>b. Some (title b) = search \<or> Some (description b) = search) books)
        else Inr (filter (\<lambda>b. isPublished b = True) books))"

text \<open>
  The query object of the filtered listing: the parameters of the query string, each a
  string when present.
\<close>

record Query =
  q_title :: "string option"
  q_authorPseudonym :: "string option"
  q_isPublished :: "string option"
  q_minPrice :: "string option"
  q_maxPrice :: "string option"

text \<open>
  \<^verbatim>\<open>
  async findAllWithFilters(query: any): Promise<Book[]> {
    try {
      const queryBuilder = this.booksRepository.createQueryBuilder('book');
      queryBuilder.leftJoinAndSelect('book.author', 'author');
      if (query.title)
        queryBuilder.andWhere('book.title LIKE :title', { title: `%${query.title}%` });
      if (query.authorPseudonym) {
        queryBuilder.andWhere('author.id IS NOT NULL');
        queryBuilder.andWhere('author.authorPseudonym LIKE :authorPseudonym',
          { authorPseudonym: `%${query.authorPseudonym}%` });
      }
      if (query.isPublished !== undefined)
        queryBuilder.andWhere('book.isPublished = :isPublished',
          { isPublished: query.isPublished === 'true' });
      if (query.minPrice && query.maxPrice)
        queryBuilder.andWhere('book.price BETWEEN :minPrice AND :maxPrice',
          { minPrice: parseFloat(query.minPrice), maxPrice: parseFloat(query.maxPrice) });
      return queryBuilder.getMany();
    } catch (error) {
      throw new InternalServerErrorException('An error occurred while applying filters to books');
    }
  }
  \<close>
  The query builder is the list of the conditions added by \<^verbatim>\<open>andWhere\<close>, and
  \<^verbatim>\<open>getMany\<close> keeps the rows that meet all of them. Two functions of the
  platform are parameters: \<open>like pattern value\<close>, the LIKE operator of the storage
  engine, and \<open>parseFloat\<close>, which yields no number (NaN) on a string that does not
  start with one. A bound that is not a number makes the query fail in the storage
  engine when \<^verbatim>\<open>getMany\<close> runs it. The promise of \<^verbatim>\<open>getMany\<close> is
  returned without \<^verbatim>\<open>await\<close>, so that failure does not reach the catch block,
  which sees the building of the query only.
\<close>

definition where_title :: "(string \<Rightarrow> string \<Rightarrow> bool) \<Rightarrow> Query \<Rightarrow> (Book \<Rightarrow> bool) list" where
  "where_title like query =
     (case q_title query of
        None \<Rightarrow> []
      | Some t \<Rightarrow> if t \<noteq> [] then [\<lambda>b. like (''%'' @ t @ ''%'') (title b)] else [])"

definition where_authorPseudonym :: "(string \<Rightarrow> string \<Rightarrow> bool) \<Rightarrow> Query \<Rightarrow> (Book \<Rightarrow> bool) list" where
  "where_authorPseudonym like query =
     (case q_authorPseudonym query of
        None \<Rightarrow> []
      | Some a \<Rightarrow>
          if a \<noteq> []
          then [\<lambda>b. author b \<noteq> None,
                \<lambda>b. (case author b of
                        None \<Rightarrow> False
                      | Some u \<Rightarrow> like (''%'' @ a @ ''%'') (authorPseudonym u))]
          else [])"

definition where_isPublished :: "Query \<Rightarrow> (Book \<Rightarrow> bool) list" where
  "where_isPublished query =
     (case q_isPublished query of
        None \<Rightarrow> []
      | Some s \<Rightarrow> [\<lambda>b. isPublished b = (s = ''true'')])"

definition where_price :: "(string \<Rightarrow> rat option) \<Rightarrow> Query \<Rightarrow> Exception + (Book \<Rightarrow> bool) list" where
  "where_price parseFloat query =
     (if truthy (q_minPrice query) \<and> truthy (q_maxPrice query)
      then (case (parseFloat (or_else (q_minPrice query) []),
                  parseFloat (or_else (q_maxPrice query) [])) of
              (Some lo, Some hi) \<Rightarrow> Inr [\<lambda>b. lo \<le> price b \<and> price b \<le> hi]
            | _ \<Rightarrow> Inl (Error ''SQLITE_ERROR: a bound of BETWEEN is not a number''))
      else Inr [])"

definition getMany :: "(Book \<Rightarrow> bool) list \<Rightarrow> Book list \<Rightarrow> Book list" where
  "getMany conditions rows = filter (\<lambda>b. list_all (\<lambda>c. c b) conditions) rows"

definition BooksService_findAllWithFilters ::
  "(string \<Rightarrow> string \<Rightarrow> bool) \<Rightarrow> (string \<Rightarrow> rat option) \<Rightarrow> Book list \<Rightarrow> Query \<Rightarrow> Exception + Book list" where
  "BooksService_findAllWithFilters like parseFloat books query =
     (case try_catch (\<lambda>e. False) ''An error occurred while applying filters to books''
             (Inr (where_title like query @ where_authorPseudonym like query
                    @ where_isPublished query)) of
        Inl e \<Rightarrow> Inl e
      | Inr conditions \<Rightarrow>
          (case where_price parseFloat query of
             Inl e \<Rightarrow> Inl e
           | Inr price_condition \<Rightarrow> Inr (getMany (conditions @ price_condition) books)))"

text \<open>
  \<^verbatim>\<open>
  async findOne(id: number): Promise<Book | undefined> {
    try {
      if (!id) throw new BadRequestException('Invalid book ID');
      const book = await this.booksRepository.findOne({ where: { id }, relations: ['author'] });
      if (!book) throw new NotFoundException('Book not found');
      return book;
    } catch (error) {
      if (error instanceof BadRequestException || error instanceof NotFoundException) throw error;
      throw new InternalServerErrorException('An error occurred while fetching the book');
    }
  }
  \<close>
\<close>

definition BooksService_findOne :: "Book list \<Rightarrow> nat \<Rightarrow> Exception + Book" where
  "BooksService_findOne books i =
     try_catch (\<lambda>e. is_BadRequest e \<or> is_NotFound e) ''An error occurred while fetching the book''
       (if i = 0 then Inl (BadRequestException ''Invalid book ID'')
        else (case books_findOne books i of
                None \<Rightarrow> Inl (NotFoundException ''Book not found'')
              | Some book \<Rightarrow> Inr book))"

section \<open>BooksController\<close>

text \<open>
  \<^verbatim>\<open>instanceToPlain\<close> turns an entity into a plain object for the response; the
  \<open>password\<close> of a user is marked \<^verbatim>\<open>@Exclude()\<close> and left out.
\<close>

record PlainUser =
  plain_user_id :: nat
  plain_username :: string
  plain_authorPseudonym :: string

record PlainBook =
  plain_id :: nat
  plain_title :: string
  plain_description :: string
  plain_coverImage :: string
  plain_price :: rat
  plain_isPublished :: bool
  plain_author :: "PlainUser option"

definition omit_password :: "User \<Rightarrow> PlainUser" where
  "omit_password u =
     \<lparr> plain_user_id = user_id u, plain_username = username u,
       plain_authorPseudonym = authorPseudonym u \<rparr>"

definition instanceToPlain :: "Book \<Rightarrow> PlainBook" where
  "instanceToPlain b =
     \<lparr> plain_id = book_id b, plain_title = title b, plain_description = description b,
       plain_coverImage = coverImage b, plain_price = price b,
       plain_isPublished = isPublished b, plain_author = map_option omit_password (author b) \<rparr>"

text \<open>
  The handlers declare their request bodies as \<^verbatim>\<open>class CreateBookDto { title:
  string; description?: string; price: number; coverImage?: string }\<close> and
  \<^verbatim>\<open>class UpdateBookDto { title?: string; description?: string; price?: number;
  coverImage?: string }\<close>. A class declaration does not exist at run time, and neither
  handler copies or filters the body before handing it to the service: whatever
  properties of a book the body of the request carries, \<open>id\<close>, \<open>isPublished\<close> and
  \<open>author\<close> among them, reach the service. The body is therefore the
  \<^verbatim>\<open>Partial<Book>\<close> the service receives.
\<close>

text \<open>The handler's \<^verbatim>\<open>return instanceToPlain(await service(...))\<close>.\<close>

definition plain_result :: "Exception + (Book \<times> Book list) \<Rightarrow> Exception + (PlainBook \<times> Book list)" where
  "plain_result r =
     (case r of Inl e \<Rightarrow> Inl e | Inr (b, books') \<Rightarrow> Inr (instanceToPlain b, books'))"

text \<open>
  \<^verbatim>\<open>
  @Post()
  async create(@Req() req, @Body() createBookDto: CreateBookDto) {
    try {
      if (!req.user) throw new BadRequestException('Invalid user');
      const book = await this.booksService.create(req.user, createBookDto);
      return instanceToPlain(book);
    } catch (error) {
      throw new InternalServerErrorException('An error occurred while creating the book');
    }
  }
  \<close>
\<close>

definition BooksController_create ::
  "User list \<Rightarrow> Book list \<Rightarrow> ReqUser option \<Rightarrow> PartialBook \<Rightarrow> Exception + (PlainBook \<times> Book list)" where
  "BooksController_create users books req_user createBookDto =
     try_catch (\<lambda>e. False) ''An error occurred while creating the book''
       (case req_user of
          None \<Rightarrow> Inl (BadRequestException ''Invalid user'')
        | Some user \<Rightarrow> plain_result (BooksService_create users books user createBookDto))"

text \<open>
  \<^verbatim>\<open>
  @Patch(':id')
  async update(@Req() req, @Param('id') id: number, @Body() updateBookDto: UpdateBookDto) {
    try {
      if (!id) throw new BadRequestException('Invalid book ID');
      if (!req.user) throw new BadRequestException('Invalid user');
      const updatedBook = await this.booksService.update(req.user, id, updateBookDto);
      if (!updatedBook) throw new NotFoundException('Book not found');
      return instanceToPlain(updatedBook);
    } catch (error) {
      if (error instanceof BadRequestException || error instanceof NotFoundException) throw error;
      throw new InternalServerErrorException('An error occurred while updating the book');
    }
  }
  \<close>
  The service returns the saved entity or throws, so the test \<^verbatim>\<open>!updatedBook\<close>
  never holds of its result; likewise in \<open>remove\<close>.
\<close>

definition BooksController_update ::
  "User list \<Rightarrow> Book list \<Rightarrow> ReqUser option \<Rightarrow> nat \<Rightarrow> PartialBook \<Rightarrow> Exception + (PlainBook \<times> Book list)" where
  "BooksController_update users books req_user i updateBookDto =
     try_catch (\<lambda>e. is_BadRequest e \<or> is_NotFound e) ''An error occurred while updating the book''
       (if i = 0 then Inl (BadRequestException ''Invalid book ID'')
        else (case req_user of
                None \<Rightarrow> Inl (BadRequestException ''Invalid user'')
              | Some user \<Rightarrow> plain_result (BooksService_update users books user i updateBookDto)))"

text \<open>
  \<^verbatim>\<open>
  @Delete(':id')
  async remove(@Req() req, @Param('id') id: number) {
    try {
      if (!id) throw new BadRequestException('Invalid book ID');
      if (!req.user) throw new BadRequestException('Invalid user');
      const book = await this.booksService.remove(req.user, id);
      if (!book) throw new NotFoundException('Book not found or already unpublished');
      return instanceToPlain(book);
    } catch (error) {
      if (error instanceof BadRequestException || error instanceof NotFoundException) throw error;
      throw new InternalServerErrorException('An error occurred while removing the book');
    }
  }
  \<close>
\<close>

definition BooksController_remove ::
  "User list \<Rightarrow> Book list \<Rightarrow> ReqUser option \<Rightarrow> nat \<Rightarrow> Exception + (PlainBook \<times> Book list)" where
  "BooksController_remove users books req_user i =
     try_catch (\<lambda>e. is_BadRequest e \<or> is_NotFound e) ''An error occurred while removing the book''
       (if i = 0 then Inl (BadRequestException ''Invalid book ID'')
        else (case req_user of
                None \<Rightarrow> Inl (BadRequestException ''Invalid user'')
              | Some user \<Rightarrow> plain_result (BooksService_remove users books user i)))"

section \<open>UsersService and UsersController\<close>

text \<open>
  The users table. \<open>username\<close> is declared \<^verbatim>\<open>@Column({ unique: true })\<close>: a write
  that would give two rows the same username fails in the storage engine, as does an
  insert that lacks one of the three columns \<open>username\<close>, \<open>password\<close> and
  \<open>authorPseudonym\<close>.
\<close>

definition assign_user :: "User \<Rightarrow> PartialUser \<Rightarrow> User" where
  "assign_user u p =
     \<lparr> user_id = or_else (pu_id p) (user_id u),
       username = or_else (pu_username p) (username u),
       password = or_else (pu_password p) (password u),
       authorPseudonym = or_else (pu_authorPseudonym p) (authorPseudonym u) \<rparr>"

text \<open>Whether a row other than the one with key \<open>i\<close> already holds the username.\<close>

definition username_taken :: "User list \<Rightarrow> nat \<Rightarrow> string option \<Rightarrow> bool" where
  "username_taken rows i n =
     (case n of
        None \<Rightarrow> False
      | Some v \<Rightarrow> v \<in> set (map username (filter (\<lambda>u. user_id u \<noteq> i) rows)))"

text \<open>Writing the properties present to the row with key \<open>i\<close>.\<close>

definition users_write :: "User list \<Rightarrow> nat \<Rightarrow> PartialUser \<Rightarrow> Exception + User list" where
  "users_write rows i p =
     (if users_findOne_id rows i \<noteq> None \<and> username_taken rows i (pu_username p)
      then Inl (Error ''SQLITE_CONSTRAINT: UNIQUE constraint failed: user.username'')
      else Inr (map (\<lambda>u. if user_id u = i then assign_user u p else u) rows))"

text \<open>\<^verbatim>\<open>usersRepository.update(id, updateData)\<close>: the properties present are
  written to the row with that key; the mapper refuses an object with no property to
  write.\<close>

definition users_update :: "User list \<Rightarrow> nat \<Rightarrow> PartialUser \<Rightarrow> Exception + User list" where
  "users_update rows i p =
     (if pu_id p = None \<and> pu_username p = None \<and> pu_password p = None
          \<and> pu_authorPseudonym p = None
      then Inl (Error ''UpdateValuesMissingError: update values are not defined'')
      else users_write rows i p)"

text \<open>\<^verbatim>\<open>usersRepository.save(user)\<close> of a \<^verbatim>\<open>Partial<User>\<close>: an update of the
  row whose key the object names, an insert otherwise.\<close>

definition users_save :: "User list \<Rightarrow> PartialUser \<Rightarrow> Exception + (User \<times> User list)" where
  "users_save rows p =
     (case (case pu_id p of None \<Rightarrow> None | Some i \<Rightarrow> users_findOne_id rows i) of
        Some old \<Rightarrow>
          (case users_write rows (user_id old) p of
             Inl e \<Rightarrow> Inl e
           | Inr rows' \<Rightarrow> Inr (assign_user old p, rows'))
      | None \<Rightarrow>
          (case (pu_username p, pu_password p, pu_authorPseudonym p) of
             (Some n, Some pw, Some ps) \<Rightarrow>
               if n \<in> set (map username rows)
               then Inl (Error ''SQLITE_CONSTRAINT: UNIQUE constraint failed: user.username'')
               else (let u = \<lparr> user_id = or_else (pu_id p) (fresh_id (map user_id rows)),
                               username = n, password = pw, authorPseudonym = ps \<rparr>
                     in Inr (u, rows @ [u]))
           | _ \<Rightarrow> Inl (Error ''SQLITE_CONSTRAINT: NOT NULL constraint failed'')))"

text \<open>
  \<^verbatim>\<open>
  async create(user: Partial<User>): Promise<User> {
    try {
      if (!user.username || !user.password)
        throw new BadRequestException('Username and password are required');
      user.password = await bcrypt.hash(user.password, 10);
      return await this.usersRepository.save(user);
    } catch (error) {
      if (error instanceof BadRequestException) throw error;
      throw new InternalServerErrorException('An error occurred while creating the user');
    }
  }
  \<close>
  \<open>hash plaintext rounds\<close> stands for \<^verbatim>\<open>bcrypt.hash\<close>, the salted one-way hash
  of the password library.
\<close>

definition UsersService_create ::
  "(string \<Rightarrow> nat \<Rightarrow> string) \<Rightarrow> User list \<Rightarrow> PartialUser \<Rightarrow> Exception + (User \<times> User list)" where
  "UsersService_create hash users user =
     try_catch is_BadRequest ''An error occurred while creating the user''
       (if \<not> truthy (pu_username user) \<or> \<not> truthy (pu_password user)
        then Inl (BadRequestException ''Username and password are required'')
        else users_save users (user\<lparr>pu_password := Some (hash (or_else (pu_password user) []) 10)\<rparr>))"

text \<open>
  \<^verbatim>\<open>
  async findByUsername(username: string): Promise<User | undefined> {
    try { return await this.usersRepository.findOne({ where: { username } }); }
    catch (error) {
      throw new InternalServerErrorException('An error occurred while fetching the user by username');
    }
  }
  async findById(id: number): Promise<User | undefined> {
    try {
      const user = await this.usersRepository.findOne({ where: { id } });
      if (!user) throw new NotFoundException('User not found');
      return user;
    } catch (error) {
      if (error instanceof NotFoundException) throw error;
      throw new InternalServerErrorException('An error occurred while fetching the user by ID');
    }
  }
  \<close>
\<close>

definition UsersService_findByUsername :: "User list \<Rightarrow> string \<Rightarrow> Exception + User option" where
  "UsersService_findByUsername users n =
     try_catch (\<lambda>e. False) ''An error occurred while fetching the user by username''
       (Inr (users_findOne_username users n))"

definition UsersService_findById :: "User list \<Rightarrow> nat \<Rightarrow> Exception + User" where
  "UsersService_findById users i =
     try_catch is_NotFound ''An error occurred while fetching the user by ID''
       (case users_findOne_id users i of
          None \<Rightarrow> Inl (NotFoundException ''User not found'')
        | Some user \<Rightarrow> Inr user)"

text \<open>
  \<^verbatim>\<open>
  async update(id: number, updateData: Partial<User>): Promise<User> {
    try {
      const existingUser = await this.findById(id);
      if (!existingUser) throw new NotFoundException('User not found');
      await this.usersRepository.update(id, updateData);
      return await this.findById(id);
    } catch (error) {
      if (error instanceof NotFoundException) throw error;
      throw new InternalServerErrorException('An error occurred while updating the user');
    }
  }
  \<close>
  The second \<open>findById\<close> may throw after the table has been written, so the table after
  the call is returned beside the outcome.
\<close>

definition UsersService_update ::
  "User list \<Rightarrow> nat \<Rightarrow> PartialUser \<Rightarrow> (Exception + User) \<times> User list" where
  "UsersService_update users i updateData =
     (case UsersService_findById users i of
        Inl e \<Rightarrow> (try_catch is_NotFound ''An error occurred while updating the user'' (Inl e), users)
      | Inr existingUser \<Rightarrow>
          (case users_update users i updateData of
             Inl e \<Rightarrow> (try_catch is_NotFound ''An error occurred while updating the user'' (Inl e), users)
           | Inr users' \<Rightarrow>
               (try_catch is_NotFound ''An error occurred while updating the user''
                  (UsersService_findById users' i), users')))"

text \<open>
  \<^verbatim>\<open>class CreateUserDto { username: string; password: string }\<close> and
  \<^verbatim>\<open>class UpdateUserDto { username?: string; password?: string;
  authorPseudonym?: string }\<close>.
  \<^verbatim>\<open>
  @Post()
  async createUser(@Body() createUserDto: CreateUserDto) {
    try {
      return await this.usersService.create({
        username: createUserDto.username,
        password: createUserDto.password,
        authorPseudonym: createUserDto.username,
      });
    } catch (error) {
      throw new InternalServerErrorException('An error occurred while creating the user');
    }
  }
  @Patch('me')
  async updateProfile(@Req() req, @Body() updateData: UpdateUserDto) {
    try { return await this.usersService.update(req.user.id, updateData); }
    catch (error) {
      if (error instanceof BadRequestException) throw error;
      throw new InternalServerErrorException('An error occurred while updating the user profile');
    }
  }
  \<close>
  Reading \<^verbatim>\<open>req.user.id\<close> of a request without a user is a TypeError.
  \<open>createUser\<close> builds the object it hands to the service from two properties of the
  body; \<open>updateProfile\<close> hands the body on as it is, so the body is the
  \<^verbatim>\<open>Partial<User>\<close> the service receives.
\<close>

record CreateUserDto =
  cu_username :: string
  cu_password :: string

definition UsersController_createUser ::
  "(string \<Rightarrow> nat \<Rightarrow> string) \<Rightarrow> User list \<Rightarrow> CreateUserDto \<Rightarrow> Exception + (User \<times> User list)" where
  "UsersController_createUser hash users createUserDto =
     try_catch (\<lambda>e. False) ''An error occurred while creating the user''
       (UsersService_create hash users
          \<lparr> pu_id = None, pu_username = Some (cu_username createUserDto),
            pu_password = Some (cu_password createUserDto),
            pu_authorPseudonym = Some (cu_username createUserDto) \<rparr>)"

definition UsersController_updateProfile ::
  "User list \<Rightarrow> ReqUser option \<Rightarrow> PartialUser \<Rightarrow> (Exception + User) \<times> User list" where
  "UsersController_updateProfile users req_user updateData =
     (case req_user of
        None \<Rightarrow>
          (try_catch is_BadRequest ''An error occurred while updating the user profile''
             (Inl (Error ''TypeError: Cannot read properties of undefined'')), users)
      | Some user \<Rightarrow>
          (case UsersService_update users (req_id user) updateData of
             (r, users') \<Rightarrow>
               (try_catch is_BadRequest ''An error occurred while updating the user profile'' r, users')))"

section \<open>AuthService and JwtMiddleware\<close>

text \<open>
  \<^verbatim>\<open>
  async validateUser(username: string, pass: string): Promise<any> {
    try {
      const user = await this.usersService.findByUsername(username);
      if (!user) throw new UnauthorizedException('Invalid username or password');
      const isPasswordValid = await bcrypt.compare(pass, user.password);
      if (!isPasswordValid) throw new UnauthorizedException('Invalid username or password');
      const { password, ...result } = user;
      return result;
    } catch (error) {
      if (error instanceof UnauthorizedException) throw error;
      throw new InternalServerErrorException('An error occurred while validating the user');
    }
  }
  \<close>
  \<open>compare plaintext digest\<close> stands for \<^verbatim>\<open>bcrypt.compare\<close>.
\<close>

definition AuthService_validateUser ::
  "(string \<Rightarrow> string \<Rightarrow> bool) \<Rightarrow> User list \<Rightarrow> string \<Rightarrow> string \<Rightarrow> Exception + PlainUser" where
  "AuthService_validateUser compare users n pass =
     try_catch is_Unauthorized ''An error occurred while validating the user''
       (case UsersService_findByUsername users n of
          Inl e \<Rightarrow> Inl e
        | Inr None \<Rightarrow> Inl (UnauthorizedException ''Invalid username or password'')
        | Inr (Some user) \<Rightarrow>
            if \<not> compare pass (password user)
            then Inl (UnauthorizedException ''Invalid username or password'')
            else Inr (omit_password user))"

text \<open>
  \<^verbatim>\<open>
  use(req: any, res: any, next: () => void) {
    const authHeader = req.headers.authorization;
    if (!authHeader || !authHeader.startsWith('Bearer '))
      throw new UnauthorizedException('Authorization token is missing or invalid');
    const token = authHeader.split(' ')[1];
    try {
      const decoded = jwt.verify(token, process.env.JWT_SECRET || 'secret');
      req.user = { id: decoded.sub };
      next();
    } catch (err) {
      throw new UnauthorizedException('Invalid or expired token');
    }
  }
  \<close>
  \<open>verify token\<close> stands for \<^verbatim>\<open>jwt.verify\<close> with the configured secret: the
  subject of a token it accepts, none where it throws. After the prefix \<open>Bearer \<close>, seven
  characters long, the second piece of the split is what precedes the next space.
\<close>

definition JwtMiddleware_use :: "(string \<Rightarrow> nat option) \<Rightarrow> string option \<Rightarrow> Exception + ReqUser" where
  "JwtMiddleware_use verify authorization =
     (if \<not> truthy authorization \<or> take 7 (or_else authorization []) \<noteq> ''Bearer ''
      then Inl (UnauthorizedException ''Authorization token is missing or invalid'')
      else (let token = takeWhile (\<lambda>c. c \<noteq> CHR '' '') (drop 7 (or_else authorization []))
            in (case verify token of
                  None \<Rightarrow> Inl (UnauthorizedException ''Invalid or expired token'')
                | Some sub \<Rightarrow> Inr \<lparr> req_id = sub \<rparr>)))"

section \<open>The registration route\<close>

text \<open>
  Modelled from the spec: the wiring of the users routes (the users module) and the
  \<open>JwtStrategy\<close> class named by \<^verbatim>\<open>@UseGuards\<close> are missing from the sources.
  The table of routes in the spec's section on external interfaces states which routes
  under \<open>/users\<close> demand a bearer credential: \<open>POST /users\<close> demands none, \<open>GET\<close>,
  \<open>PATCH\<close> and \<open>DELETE /users/me\<close> demand one. A route that demands one runs the
  request authenticator before its handler and is rejected where that fails; a route
  that demands none reaches its handler directly.
\<close>

datatype RequestMethod = GET | POST | PATCH | DELETE

definition users_route_bearer :: "RequestMethod \<Rightarrow> string \<Rightarrow> bool" where
  "users_route_bearer m path = (if m = POST \<and> path = ''/users'' then False else True)"

definition POST_users ::
  "(string \<Rightarrow> nat \<Rightarrow> string) \<Rightarrow> (string \<Rightarrow> nat option) \<Rightarrow> User list \<Rightarrow> string option \<Rightarrow> CreateUserDto
     \<Rightarrow> Exception + (User \<times> User list)" where
  "POST_users hash verify users authorization body =
     (if users_route_bearer POST ''/users''
      then (case JwtMiddleware_use verify authorization of
              Inl e \<Rightarrow> Inl e
            | Inr req_user \<Rightarrow> UsersController_createUser hash users body)
      else UsersController_createUser hash users body)"

section \<open>Example data\<close>

text \<open>Three registered users, and the tables the scenarios of the specification run on.\<close>

definition alice :: User where
  "alice = \<lparr> user_id = 1, username = ''alice'', password = ''$2b$10$digest.of.alice'',
             authorPseudonym = ''alice'' \<rparr>"

definition bob :: User where
  "bob = \<lparr> user_id = 2, username = ''bob'', password = ''$2b$10$digest.of.bob'',
           authorPseudonym = ''bob'' \<rparr>"

definition vader :: User where
  "vader = \<lparr> user_id = 3, username = ''Darth Vader'', password = ''$2b$10$digest.of.vader'',
             authorPseudonym = ''Darth Vader'' \<rparr>"

definition book_priced :: "nat \<Rightarrow> rat \<Rightarrow> bool \<Rightarrow> User option \<Rightarrow> Book" where
  "book_priced i p pub a =
     \<lparr> book_id = i, title = ''Wookie Adventures'', description = ''An epic tale from Kashyyyk'',
       coverImage = ''url_to_image'', price = p, isPublished = pub, author = a \<rparr>"

definition catalog :: "Book list" where
  "catalog = [book_priced 1 5 True (Some alice), book_priced 2 15 True (Some alice),
              book_priced 3 25 True (Some bob), book_priced 4 35 True (Some bob)]"

definition no_filters :: Query where
  "no_filters = \<lparr> q_title = None, q_authorPseudonym = None, q_isPublished = None,
                  q_minPrice = None, q_maxPrice = None \<rparr>"

text \<open>A stand-in for the password library in the scenarios: the digest of a password is
  the password behind a marker, and a password matches the digest made from it.\<close>

definition toy_hash :: "string \<Rightarrow> nat \<Rightarrow> string" where
  "toy_hash plaintext rounds = ''$2b$'' @ plaintext"

definition toy_compare :: "string \<Rightarrow> string \<Rightarrow> bool" where
  "toy_compare plaintext digest = (digest = ''$2b$'' @ plaintext)"

text \<open>A stand-in for \<^verbatim>\<open>parseFloat\<close> that reads the two bounds of the price
  scenario and takes every other string for no number.\<close>

definition toy_parseFloat :: "string \<Rightarrow> rat option" where
  "toy_parseFloat s = (if s = ''10'' then Some 10 else if s = ''30'' then Some 30 else None)"

text \<open>Request bodies of the scenarios.\<close>

definition dark_side :: PartialBook where
  "dark_side = \<lparr> pb_id = None, pb_title = Some ''The Dark Side'',
                 pb_description = Some ''A story of the dark side'',
                 pb_coverImage = Some ''url_to_image'', pb_price = Some 10,
                 pb_isPublished = None, pb_author = None \<rparr>"

definition retitle :: PartialBook where
  "retitle = \<lparr> pb_id = None, pb_title = Some ''New Title'', pb_description = None,
               pb_coverImage = None, pb_price = None, pb_isPublished = None, pb_author = None \<rparr>"

definition reassign :: PartialBook where
  "reassign = \<lparr> pb_id = None, pb_title = None, pb_description = None, pb_coverImage = None,
                pb_price = None, pb_isPublished = None, pb_author = Some bob \<rparr>"

definition renumber :: PartialBook where
  "renumber = \<lparr> pb_id = Some 7, pb_title = None, pb_description = None, pb_coverImage = None,
                pb_price = None, pb_isPublished = None, pb_author = None \<rparr>"

definition new_password :: PartialUser where
  "new_password = \<lparr> pu_id = None, pu_username = None, pu_password = Some ''newpassword123'',
                    pu_authorPseudonym = None \<rparr>"

text \<open>A table with a book of Alice's and a book that has no author.\<close>

definition shelf :: "Book list" where
  "shelf = [book_priced 1 5 True (Some alice), book_priced 7 12 True None]"

definition testuser :: CreateUserDto where
  "testuser = \<lparr> cu_username = ''testuser'', cu_password = ''password123'' \<rparr>"

section \<open>Properties\<close>

lemma try_catch_Inr [simp]: "try_catch keep msg (Inr v) = Inr v"
  by (simp add: try_catch_def)

lemma try_catch_Inl [simp]:
  "try_catch keep msg (Inl e) = (if keep e then Inl e else Inl (InternalServerErrorException msg))"
  by (simp add: try_catch_def)

subsection \<open>The tables\<close>

lemma books_findOne_SomeD: "books_findOne rows i = Some b \<Longrightarrow> book_id b = i \<and> b \<in> set rows"
  unfolding books_findOne_def by (auto simp: find_Some_iff)

lemma books_findOne_write_same: "books_findOne (books_write rows b) (book_id b) = Some b"
proof (cases "book_id b \<in> set (map book_id rows)")
  case True
  have "find (\<lambda>r. book_id r = book_id b) (map (\<lambda>r. if book_id r = book_id b then b else r) rows) = Some b"
    using True by (induction rows) auto
  with True show ?thesis by (simp add: books_findOne_def books_write_def)
next
  case False
  then have "find (\<lambda>r. book_id r = book_id b) (rows @ [b]) = Some b"
    by (induction rows) auto
  with False show ?thesis
    by (simp add: books_findOne_def books_write_def)
qed

lemma books_findOne_write_other:
  assumes "book_id b \<noteq> i"
  shows "books_findOne (books_write rows b) i = books_findOne rows i"
proof -
  have m: "find (\<lambda>r. book_id r = i) (map (\<lambda>r. if book_id r = book_id b then b else r) rows)
         = find (\<lambda>r. book_id r = i) rows"
    using assms by (induction rows) auto
  have a: "find (\<lambda>r. book_id r = i) (rows @ [b]) = find (\<lambda>r. book_id r = i) rows"
    using assms by (induction rows) auto
  show ?thesis by (simp add: books_findOne_def books_write_def m a)
qed

lemma books_write_idem: "books_write (books_write rows b) b = books_write rows b"
proof (cases "book_id b \<in> set (map book_id rows)")
  case True
  let ?f = "\<lambda>r. if book_id r = book_id b then b else r"
  have in': "book_id b \<in> set (map book_id (map ?f rows))"
    using True by (induction rows) auto
  have "map ?f (map ?f rows) = map ?f rows" by (induction rows) auto
  with True in' show ?thesis by (simp add: books_write_def)
next
  case False
  then have "map (\<lambda>r. if book_id r = book_id b then b else r) rows = rows"
    by (induction rows) auto
  with False show ?thesis by (simp add: books_write_def)
qed

lemma users_findOne_id_SomeD: "users_findOne_id rows i = Some u \<Longrightarrow> user_id u = i \<and> u \<in> set rows"
  unfolding users_findOne_id_def by (auto simp: find_Some_iff)

lemma users_findOne_username_absent:
  "n \<notin> set (map username users) \<Longrightarrow> users_findOne_username users n = None"
  unfolding users_findOne_username_def by (induction users) auto

lemma le_foldr_max: "(x::nat) \<in> set xs \<Longrightarrow> x \<le> foldr max xs 0"
  by (induction xs) (auto intro: max.coboundedI2)

lemma fresh_id_fresh: "fresh_id ids \<notin> set ids"
  using le_foldr_max [of "fresh_id ids" ids] by (auto simp: fresh_id_def)

text \<open>A book whose owner is registered passes the foreign-key check, whatever its flag.\<close>

lemma owned_by_foreign_key_ok:
  assumes "owned_by book user" and "req_id user \<in> set (map user_id users)"
  shows "foreign_key_ok users book"
  using assms by (auto simp: owned_by_def foreign_key_ok_def split: option.splits)

subsection \<open>Creating a book\<close>

lemma BooksService_create_Darth_Vader:
  assumes "users_findOne_id users (req_id user) = Some a" and "username a = ''Darth Vader''"
  shows "BooksService_create users books user bookData
           = Inl (ForbiddenException ''Darth Vader is not allowed to publish Wookie books.'')"
  using assms by (simp add: BooksService_create_def)

lemma BooksController_create_Darth_Vader:
  assumes "users_findOne_id users (req_id user) = Some a" and "username a = ''Darth Vader''"
  shows "BooksController_create users books (Some user) body
           = Inl (InternalServerErrorException ''An error occurred while creating the book'')"
  using assms
  by (simp add: BooksController_create_def plain_result_def BooksService_create_Darth_Vader)

text \<open>Whatever goes wrong, the handler of \<open>create\<close> throws one and the same exception.\<close>

lemma BooksController_create_failure:
  "BooksController_create users books req_user body = Inl e \<Longrightarrow>
     e = InternalServerErrorException ''An error occurred while creating the book''"
  by (auto simp: BooksController_create_def try_catch_def split: sum.splits option.splits)

text \<open>Every other author who sends a complete book without a key gets it created and
  attributed to them, published unless the body says otherwise.\<close>

lemma BooksController_create_other_username:
  assumes "users_findOne_id users (req_id user) = Some a" and "username a \<noteq> ''Darth Vader''"
    and "pb_id body = None" and "pb_title body = Some t" and "pb_description body = Some d"
    and "pb_coverImage body = Some c" and "pb_price body = Some p"
  shows "BooksController_create users books (Some user) body
           = Inr (instanceToPlain
                    \<lparr> book_id = fresh_id (map book_id books), title = t,
                      description = d, coverImage = c, price = p,
                      isPublished = or_else (pb_isPublished body) True, author = Some a \<rparr>,
                  books @ [\<lparr> book_id = fresh_id (map book_id books), title = t,
                      description = d, coverImage = c, price = p,
                      isPublished = or_else (pb_isPublished body) True, author = Some a \<rparr>])"
proof -
  have fresh: "fresh_id (map book_id books) \<notin> set (map book_id books)"
    by (rule fresh_id_fresh)
  have "user_id a \<in> set (map user_id users)"
    using users_findOne_id_SomeD [OF assms(1)] by force
  with assms fresh show ?thesis
    by (simp add: BooksController_create_def plain_result_def BooksService_create_def
        books_insert_def books_save_def books_write_def foreign_key_ok_def or_else_def)
qed

text \<open>\<open>create\<close> sets the author itself: an author in the body has no effect.\<close>

lemma BooksService_create_pins_author:
  assumes "users_findOne_id users (req_id user) = Some a"
    and "BooksService_create users books user bookData = Inr (b, books')"
  shows "author b = Some a"
  using assms
  by (auto simp: BooksService_create_def books_insert_def books_save_def Object_assign_def
      split: if_splits option.splits)

text \<open>
  C1. Darth Vader, registered with id 3 and authenticated, sends a complete book. The
  service refuses with \<open>ForbiddenException\<close>, but the handler, whose catch block rethrows
  nothing, answers with \<open>InternalServerErrorException\<close>: the caller of the create
  operation does not see the Forbidden failure the claim promises.
\<close>

theorem create_Darth_Vader_internal_failure:
  "users_findOne_id [alice, bob, vader] 3 = Some vader
   \<and> username vader = ''Darth Vader''
   \<and> BooksService_create [alice, bob, vader] catalog \<lparr>req_id = 3\<rparr> dark_side
       = Inl (ForbiddenException ''Darth Vader is not allowed to publish Wookie books.'')
   \<and> BooksController_create [alice, bob, vader] catalog (Some \<lparr>req_id = 3\<rparr>) dark_side
       = Inl (InternalServerErrorException ''An error occurred while creating the book'')"
  by (simp add: users_findOne_id_def alice_def bob_def vader_def BooksService_create_def
      BooksController_create_def plain_result_def)

subsection \<open>Updating a book\<close>

lemma BooksService_update_owner:
  assumes "books_findOne books i = Some book" and "owned_by book user"
    and "foreign_key_ok users (Object_assign book bookData)"
  shows "BooksService_update users books user i bookData
           = Inr (Object_assign book bookData, books_write books (Object_assign book bookData))"
  using assms by (simp add: BooksService_update_def books_save_def)

lemma BooksService_update_not_owner:
  assumes "books_findOne books i = Some book" and "\<not> owned_by book user"
  shows "BooksService_update users books user i bookData
           = Inl (UnauthorizedException ''You are not authorized to update this book'')"
  using assms by (simp add: BooksService_update_def)

lemma BooksController_update_not_owner:
  assumes "books_findOne books i = Some book" and "\<not> owned_by book user" and "i \<noteq> 0"
  shows "BooksController_update users books (Some user) i body
           = Inl (InternalServerErrorException ''An error occurred while updating the book'')"
  using assms
  by (simp add: BooksController_update_def plain_result_def BooksService_update_not_owner)

lemma BooksController_update_owner:
  assumes "books_findOne books i = Some book" and "owned_by book user" and "i \<noteq> 0"
    and "foreign_key_ok users (Object_assign book body)"
  shows "BooksController_update users books (Some user) i body
           = Inr (instanceToPlain (Object_assign book body),
                  books_write books (Object_assign book body))"
  using assms
  by (simp add: BooksController_update_def plain_result_def BooksService_update_owner)

text \<open>
  C2. Bob, whose id is 2, sends an update of book 1, which is Alice's. The service
  refuses with \<open>UnauthorizedException\<close>, but the handler's catch block rethrows only
  \<open>BadRequestException\<close> and \<open>NotFoundException\<close> and turns the refusal into
  \<open>InternalServerErrorException\<close>: at the handler the Unauthorized outcome is conflated
  with the internal failure.
\<close>

theorem update_non_owner_internal_failure:
  "books_findOne catalog 1 = Some (book_priced 1 5 True (Some alice))
   \<and> BooksService_update [alice, bob] catalog \<lparr>req_id = 2\<rparr> 1 retitle
       = Inl (UnauthorizedException ''You are not authorized to update this book'')
   \<and> BooksController_update [alice, bob] catalog (Some \<lparr>req_id = 2\<rparr>) 1 retitle
       = Inl (InternalServerErrorException ''An error occurred while updating the book'')"
  by (simp add: books_findOne_def catalog_def book_priced_def owned_by_def alice_def
      BooksService_update_def BooksController_update_def plain_result_def)

text \<open>
  C5. Alice, the owner of book 1, sends an update whose body names Bob as the author.
  The handler hands the body to the service as it is, and the service assigns every
  property of the body to the book and saves it: the update succeeds, and the author
  stored for book 1 afterwards is Bob, not the author stored before, as the claim
  demands. \<open>create\<close> overrides the author of the body with the acting user; \<open>update\<close>
  has nothing of the kind.
\<close>

theorem update_reassigns_author:
  "books_findOne catalog 1 = Some (book_priced 1 5 True (Some alice))
   \<and> owned_by (book_priced 1 5 True (Some alice)) \<lparr>req_id = 1\<rparr>
   \<and> BooksService_update [alice, bob] catalog \<lparr>req_id = 1\<rparr> 1 reassign
       = Inr (book_priced 1 5 True (Some bob),
              [book_priced 1 5 True (Some bob), book_priced 2 15 True (Some alice),
               book_priced 3 25 True (Some bob), book_priced 4 35 True (Some bob)])
   \<and> BooksController_update [alice, bob] catalog (Some \<lparr>req_id = 1\<rparr>) 1 reassign
       = Inr (instanceToPlain (book_priced 1 5 True (Some bob)),
              [book_priced 1 5 True (Some bob), book_priced 2 15 True (Some alice),
               book_priced 3 25 True (Some bob), book_priced 4 35 True (Some bob)])
   \<and> books_findOne [book_priced 1 5 True (Some bob), book_priced 2 15 True (Some alice),
               book_priced 3 25 True (Some bob), book_priced 4 35 True (Some bob)] 1
       = Some (book_priced 1 5 True (Some bob))
   \<and> author (book_priced 1 5 True (Some bob)) \<noteq> author (book_priced 1 5 True (Some alice))"
  by (simp add: books_findOne_def catalog_def book_priced_def owned_by_def alice_def bob_def
      BooksService_update_def BooksController_update_def plain_result_def Object_assign_def
      or_else_def books_save_def books_write_def foreign_key_ok_def reassign_def)

subsection \<open>Books without an author\<close>

text \<open>An update or an unpublish addressed to a book without an author is refused with
  \<open>UnauthorizedException\<close>, whoever the acting user and whatever the body.\<close>

lemma authorless_book_refused:
  assumes "books_findOne books i = Some book" and "author book = None"
  shows "BooksService_update users books user i bookData =
           Inl (UnauthorizedException ''You are not authorized to update this book'')
       \<and> BooksService_remove users books user i =
           Inl (UnauthorizedException ''You are not authorized to unpublish this book'')"
  using assms by (simp add: BooksService_update_def BooksService_remove_def owned_by_def)

text \<open>
  C10. Book 7 has no author, and an update addressed to it is refused with
  \<open>UnauthorizedException\<close>. But Alice sends an update of book 1, which is hers, with a
  body that carries the id 7: the service assigns the id to her book and saves it, and
  the row with key 7 is overwritten with her book. The book without an author has been
  mutated through the update path, which the claim excludes.
\<close>

theorem update_overwrites_authorless_book:
  "books_findOne shelf 7 = Some (book_priced 7 12 True None)
   \<and> author (book_priced 7 12 True None) = None
   \<and> BooksService_update [alice, bob] shelf \<lparr>req_id = 1\<rparr> 7 retitle
       = Inl (UnauthorizedException ''You are not authorized to update this book'')
   \<and> BooksService_update [alice, bob] shelf \<lparr>req_id = 1\<rparr> 1 renumber
       = Inr (book_priced 7 5 True (Some alice),
              [book_priced 1 5 True (Some alice), book_priced 7 5 True (Some alice)])
   \<and> BooksController_update [alice, bob] shelf (Some \<lparr>req_id = 1\<rparr>) 1 renumber
       = Inr (instanceToPlain (book_priced 7 5 True (Some alice)),
              [book_priced 1 5 True (Some alice), book_priced 7 5 True (Some alice)])
   \<and> books_findOne [book_priced 1 5 True (Some alice), book_priced 7 5 True (Some alice)] 7
       = Some (book_priced 7 5 True (Some alice))
   \<and> book_priced 7 5 True (Some alice) \<noteq> book_priced 7 12 True None"
  by (simp add: books_findOne_def shelf_def book_priced_def owned_by_def alice_def bob_def
      BooksService_update_def BooksController_update_def plain_result_def Object_assign_def
      or_else_def books_save_def books_write_def foreign_key_ok_def renumber_def retitle_def)

subsection \<open>Unpublishing a book\<close>

lemma owned_by_isPublished [simp]: "owned_by (book\<lparr>isPublished := v\<rparr>) user = owned_by book user"
  by (simp add: owned_by_def)

lemma BooksService_remove_owner:
  assumes "books_findOne books i = Some book" and "owned_by book user"
    and "req_id user \<in> set (map user_id users)"
  shows "BooksService_remove users books user i
           = Inr (book\<lparr>isPublished := False\<rparr>, books_write books (book\<lparr>isPublished := False\<rparr>))"
proof -
  have "owned_by (book\<lparr>isPublished := False\<rparr>) user" using assms(2) by simp
  from owned_by_foreign_key_ok [OF this assms(3)] assms(1,2) show ?thesis
    by (simp add: BooksService_remove_def books_save_def)
qed

text \<open>
  C9. For every book owned by the acting user, a registered user, unpublishing succeeds
  and returns the book with the publication flag false; the table afterwards holds that
  book under its id, flag false, and every other row as it was. Unpublishing again, on
  the table the first call left, succeeds too, returns the same book and leaves the same
  table.
\<close>

theorem unpublish_idempotent:
  assumes "books_findOne books i = Some book" and "owned_by book user"
    and "req_id user \<in> set (map user_id users)"
  shows "\<exists>book' books'.
           BooksService_remove users books user i = Inr (book', books')
         \<and> book' = book\<lparr>isPublished := False\<rparr>
         \<and> isPublished book' = False
         \<and> books_findOne books' i = Some book'
         \<and> (\<forall>j. j \<noteq> i \<longrightarrow> books_findOne books' j = books_findOne books j)
         \<and> BooksService_remove users books' user i = Inr (book', books')"
proof -
  let ?b = "book\<lparr>isPublished := False\<rparr>"
  let ?s = "books_write books ?b"
  have id: "book_id ?b = i" using books_findOne_SomeD [OF assms(1)] by simp
  have first: "BooksService_remove users books user i = Inr (?b, ?s)"
    by (rule BooksService_remove_owner [OF assms])
  have found: "books_findOne ?s i = Some ?b"
    using books_findOne_write_same [of books ?b] id by simp
  have others: "\<forall>j. j \<noteq> i \<longrightarrow> books_findOne ?s j = books_findOne books j"
    using books_findOne_write_other [of ?b _ books] id by auto
  have owned: "owned_by ?b user" using assms(2) by simp
  have "BooksService_remove users ?s user i
          = Inr (?b\<lparr>isPublished := False\<rparr>, books_write ?s (?b\<lparr>isPublished := False\<rparr>))"
    by (rule BooksService_remove_owner [OF found owned assms(3)])
  then have second: "BooksService_remove users ?s user i = Inr (?b, ?s)"
    by (simp add: books_write_idem)
  from first found others second show ?thesis by simp
qed

text \<open>Alice unpublishes book 2 of the catalogue twice.\<close>

theorem unpublish_idempotent_witness:
  "books_findOne catalog 2 = Some (book_priced 2 15 True (Some alice))
   \<and> owned_by (book_priced 2 15 True (Some alice)) \<lparr>req_id = 1\<rparr>
   \<and> req_id \<lparr>req_id = 1\<rparr> \<in> set (map user_id [alice, bob])
   \<and> BooksService_remove [alice, bob] catalog \<lparr>req_id = 1\<rparr> 2
       = Inr (book_priced 2 15 False (Some alice),
              [book_priced 1 5 True (Some alice), book_priced 2 15 False (Some alice),
               book_priced 3 25 True (Some bob), book_priced 4 35 True (Some bob)])
   \<and> books_findOne [book_priced 1 5 True (Some alice), book_priced 2 15 False (Some alice),
               book_priced 3 25 True (Some bob), book_priced 4 35 True (Some bob)] 2
       = Some (book_priced 2 15 False (Some alice))
   \<and> books_findOne [book_priced 1 5 True (Some alice), book_priced 2 15 False (Some alice),
               book_priced 3 25 True (Some bob), book_priced 4 35 True (Some bob)] 3
       = books_findOne catalog 3
   \<and> BooksService_remove [alice, bob]
        [book_priced 1 5 True (Some alice), book_priced 2 15 False (Some alice),
         book_priced 3 25 True (Some bob), book_priced 4 35 True (Some bob)] \<lparr>req_id = 1\<rparr> 2
       = Inr (book_priced 2 15 False (Some alice),
              [book_priced 1 5 True (Some alice), book_priced 2 15 False (Some alice),
               book_priced 3 25 True (Some bob), book_priced 4 35 True (Some bob)])"
proof -
  let ?after = "[book_priced 1 5 True (Some alice), book_priced 2 15 False (Some alice),
                 book_priced 3 25 True (Some bob), book_priced 4 35 True (Some bob)]"
  have f: "books_findOne catalog 2 = Some (book_priced 2 15 True (Some alice))"
    by (simp add: books_findOne_def catalog_def book_priced_def)
  have o: "owned_by (book_priced 2 15 True (Some alice)) \<lparr>req_id = 1\<rparr>"
    by (simp add: owned_by_def book_priced_def alice_def)
  have r: "req_id \<lparr>req_id = 1\<rparr> \<in> set (map user_id [alice, bob])"
    by (simp add: alice_def)
  have e: "(book_priced 2 15 True (Some alice))\<lparr>isPublished := False\<rparr>
             = book_priced 2 15 False (Some alice)"
    by (simp add: book_priced_def)
  have w: "books_write catalog (book_priced 2 15 False (Some alice)) = ?after"
    by (simp add: books_write_def catalog_def book_priced_def)
  from unpublish_idempotent [OF f o r] obtain book' books' where
    1: "BooksService_remove [alice, bob] catalog \<lparr>req_id = 1\<rparr> 2 = Inr (book', books')" and
    2: "book' = (book_priced 2 15 True (Some alice))\<lparr>isPublished := False\<rparr>" and
    3: "books_findOne books' 2 = Some book'" and
    4: "\<forall>j. j \<noteq> 2 \<longrightarrow> books_findOne books' j = books_findOne catalog j" and
    5: "BooksService_remove [alice, bob] books' \<lparr>req_id = 1\<rparr> 2 = Inr (book', books')"
    by blast
  have "BooksService_remove [alice, bob] catalog \<lparr>req_id = 1\<rparr> 2
          = Inr (book_priced 2 15 False (Some alice), ?after)"
    using BooksService_remove_owner [OF f o r] e w by simp
  with 1 2 e have b: "book' = book_priced 2 15 False (Some alice)" and s: "books' = ?after"
    by simp_all
  from 4 have "books_findOne books' 3 = books_findOne catalog 3" by simp
  with 1 3 5 b s f o r show ?thesis by simp
qed

subsection \<open>Listing books\<close>

lemma getMany_snoc: "getMany (cs @ [c]) rows = filter c (getMany cs rows)"
  by (simp add: getMany_def conj_commute)

text \<open>
  C7. The filtered listing called with no filter returns every row of the table,
  published or not, while the simple listing called with no search term returns the
  published rows only; on a table of one published and one unpublished book the first
  returns both rows and the second one.
\<close>

theorem zero_filters_return_every_book:
  "BooksService_findAllWithFilters like parseFloat books no_filters = Inr books
   \<and> BooksService_findAll books None = Inr (filter isPublished books)
   \<and> BooksService_findAllWithFilters like parseFloat
        [book_priced 1 5 True (Some alice), book_priced 2 15 False (Some alice)] no_filters
       = Inr [book_priced 1 5 True (Some alice), book_priced 2 15 False (Some alice)]
   \<and> BooksService_findAll
        [book_priced 1 5 True (Some alice), book_priced 2 15 False (Some alice)] None
       = Inr [book_priced 1 5 True (Some alice)]"
  by (simp add: BooksService_findAllWithFilters_def BooksService_findAll_def no_filters_def
      where_title_def where_authorPseudonym_def where_isPublished_def where_price_def
      getMany_def truthy_def book_priced_def)

text \<open>
  C8. A query in which one of the two bounds is absent (or is the empty string) gets the
  rows it would get with neither: no price condition is applied. A query with both
  bounds, each a non-empty string that reads as a number, gets the rows it would get
  without them whose price lies between the two numbers, both included.
\<close>

theorem price_filter_both_bounds_inclusive:
  "(\<not> (truthy (q_minPrice query) \<and> truthy (q_maxPrice query)) \<longrightarrow>
      BooksService_findAllWithFilters like parseFloat books query
        = BooksService_findAllWithFilters like parseFloat books
            (query\<lparr>q_minPrice := None, q_maxPrice := None\<rparr>))
   \<and> (q_minPrice query = Some lo_str \<and> q_maxPrice query = Some hi_str
        \<and> lo_str \<noteq> [] \<and> hi_str \<noteq> []
        \<and> parseFloat lo_str = Some lo \<and> parseFloat hi_str = Some hi \<longrightarrow>
      BooksService_findAllWithFilters like parseFloat books query
        = (case BooksService_findAllWithFilters like parseFloat books
                  (query\<lparr>q_minPrice := None, q_maxPrice := None\<rparr>) of
             Inl e \<Rightarrow> Inl e
           | Inr rows \<Rightarrow> Inr (filter (\<lambda>b. lo \<le> price b \<and> price b \<le> hi) rows)))"
proof (intro conjI impI)
  assume "\<not> (truthy (q_minPrice query) \<and> truthy (q_maxPrice query))"
  then have "where_price parseFloat query = Inr []"
    by (auto simp: where_price_def)
  then show "BooksService_findAllWithFilters like parseFloat books query
        = BooksService_findAllWithFilters like parseFloat books
            (query\<lparr>q_minPrice := None, q_maxPrice := None\<rparr>)"
    by (simp add: BooksService_findAllWithFilters_def where_title_def where_authorPseudonym_def
        where_isPublished_def where_price_def truthy_def)
next
  assume h: "q_minPrice query = Some lo_str \<and> q_maxPrice query = Some hi_str
        \<and> lo_str \<noteq> [] \<and> hi_str \<noteq> []
        \<and> parseFloat lo_str = Some lo \<and> parseFloat hi_str = Some hi"
  then have p: "where_price parseFloat query = Inr [\<lambda>b. lo \<le> price b \<and> price b \<le> hi]"
    by (simp add: where_price_def truthy_def or_else_def)
  have "getMany ((where_title like query @ where_authorPseudonym like query
                   @ where_isPublished query) @ [\<lambda>b. lo \<le> price b \<and> price b \<le> hi]) books
      = filter (\<lambda>b. lo \<le> price b \<and> price b \<le> hi)
          (getMany (where_title like query @ where_authorPseudonym like query
                   @ where_isPublished query) books)"
    by (rule getMany_snoc)
  then show "BooksService_findAllWithFilters like parseFloat books query
        = (case BooksService_findAllWithFilters like parseFloat books
                  (query\<lparr>q_minPrice := None, q_maxPrice := None\<rparr>) of
             Inl e \<Rightarrow> Inl e
           | Inr rows \<Rightarrow> Inr (filter (\<lambda>b. lo \<le> price b \<and> price b \<le> hi) rows))"
    using p
    by (simp add: BooksService_findAllWithFilters_def where_title_def where_authorPseudonym_def
        where_isPublished_def where_price_def truthy_def)
qed

text \<open>The scenario: over the prices 5, 15, 25 and 35, the bounds 10 and 30 keep the rows
  priced 15 and 25, and the lower bound alone keeps all four.\<close>

theorem price_filter_both_bounds_inclusive_witness:
  "q_maxPrice (no_filters\<lparr>q_minPrice := Some ''10''\<rparr>) = None
   \<and> \<not> (truthy (q_minPrice (no_filters\<lparr>q_minPrice := Some ''10''\<rparr>))
          \<and> truthy (q_maxPrice (no_filters\<lparr>q_minPrice := Some ''10''\<rparr>)))
   \<and> BooksService_findAllWithFilters (\<lambda>pattern v. True) toy_parseFloat catalog
        (no_filters\<lparr>q_minPrice := Some ''10''\<rparr>)
       = Inr catalog
   \<and> q_minPrice (no_filters\<lparr>q_minPrice := Some ''10'', q_maxPrice := Some ''30''\<rparr>) = Some ''10''
   \<and> q_maxPrice (no_filters\<lparr>q_minPrice := Some ''10'', q_maxPrice := Some ''30''\<rparr>) = Some ''30''
   \<and> toy_parseFloat ''10'' = Some 10 \<and> toy_parseFloat ''30'' = Some 30
   \<and> map price catalog = [5, 15, 25, 35]
   \<and> BooksService_findAllWithFilters (\<lambda>pattern v. True) toy_parseFloat catalog
        (no_filters\<lparr>q_minPrice := Some ''10'', q_maxPrice := Some ''30''\<rparr>)
       = Inr [book_priced 2 15 True (Some alice), book_priced 3 25 True (Some bob)]"
proof -
  have z: "BooksService_findAllWithFilters (\<lambda>pattern v. True) toy_parseFloat catalog no_filters
             = Inr catalog"
    by (simp add: BooksService_findAllWithFilters_def no_filters_def where_title_def
        where_authorPseudonym_def where_isPublished_def where_price_def getMany_def truthy_def)
  have q0: "no_filters\<lparr>q_minPrice := None, q_maxPrice := None\<rparr> = no_filters"
    and m: "q_maxPrice no_filters = None"
    by (simp_all add: no_filters_def)
  have d: "toy_parseFloat ''10'' = Some 10 \<and> toy_parseFloat ''30'' = Some 30"
    by (simp add: toy_parseFloat_def)
  have c: "map price catalog = [5, 15, 25, 35]"
    by (simp add: catalog_def book_priced_def)
  have f: "filter (\<lambda>b. 10 \<le> price b \<and> price b \<le> 30) catalog
             = [book_priced 2 15 True (Some alice), book_priced 3 25 True (Some bob)]"
    by (simp add: catalog_def book_priced_def)
  from price_filter_both_bounds_inclusive
         [where query = "no_filters\<lparr>q_minPrice := Some ''10''\<rparr>" and like = "\<lambda>pattern v. True"
            and parseFloat = toy_parseFloat and books = catalog]
  have one: "BooksService_findAllWithFilters (\<lambda>pattern v. True) toy_parseFloat catalog
        (no_filters\<lparr>q_minPrice := Some ''10''\<rparr>) = Inr catalog"
    by (simp add: q0 m z truthy_def)
  from price_filter_both_bounds_inclusive
         [where query = "no_filters\<lparr>q_minPrice := Some ''10'', q_maxPrice := Some ''30''\<rparr>"
            and like = "\<lambda>pattern v. True" and parseFloat = toy_parseFloat and books = catalog
            and lo_str = "''10''" and hi_str = "''30''" and lo = 10 and hi = 30]
  have two: "BooksService_findAllWithFilters (\<lambda>pattern v. True) toy_parseFloat catalog
        (no_filters\<lparr>q_minPrice := Some ''10'', q_maxPrice := Some ''30''\<rparr>)
       = Inr [book_priced 2 15 True (Some alice), book_priced 3 25 True (Some bob)]"
    using d by (simp add: q0 z f)
  from one two d c m show ?thesis by (simp add: truthy_def)
qed

subsection \<open>Passwords\<close>

lemma users_save_password:
  assumes "users_save users p = Inr (u, users')" and "pu_password p = Some digest"
  shows "password u = digest \<and> u \<in> set users'"
proof (cases "case pu_id p of None \<Rightarrow> None | Some i \<Rightarrow> users_findOne_id users i")
  case None
  with assms show ?thesis
    by (auto simp: users_save_def Let_def split: option.splits if_splits)
next
  case (Some old)
  then have old: "old \<in> set users"
    by (auto split: option.splits dest: users_findOne_id_SomeD)
  from assms(1) Some obtain rows' where
    r: "users_write users (user_id old) p = Inr rows'" and u: "u = assign_user old p" and
    s: "users' = rows'"
    by (auto simp: users_save_def split: sum.splits)
  from r have "rows' = map (\<lambda>u. if user_id u = user_id old then assign_user u p else u) users"
    by (auto simp: users_write_def split: if_splits)
  with old have "assign_user old p \<in> set rows'" by force
  with u s assms(2) show ?thesis by (simp add: assign_user_def or_else_def)
qed

text \<open>Registration stores the digest: whenever \<open>create\<close> succeeds, the password of the
  stored user is the hash of the plaintext supplied.\<close>

lemma UsersService_create_stores_hash:
  assumes "UsersService_create hash users user = Inr (u, users')"
  shows "\<exists>plaintext. pu_password user = Some plaintext
           \<and> password u = hash plaintext 10 \<and> u \<in> set users'"
proof -
  from assms obtain plaintext where p: "pu_password user = Some plaintext"
    by (cases "pu_password user")
       (auto simp: UsersService_create_def truthy_def try_catch_def split: if_splits)
  from assms have t: "truthy (pu_username user) \<and> truthy (pu_password user)"
    by (auto simp: UsersService_create_def split: if_splits)
  have "users_save users (user\<lparr>pu_password := Some (hash plaintext 10)\<rparr>) = Inr (u, users')"
    using assms t p
    by (auto simp: UsersService_create_def or_else_def try_catch_def split: sum.splits if_splits)
  from users_save_password [OF this] p show ?thesis by simp
qed

text \<open>
  C3. Alice changes her password through the profile update. \<open>update\<close> hands the payload
  to the repository as it is, with no call of the hash that \<open>create\<close> makes: the
  password stored for Alice afterwards is the plaintext \<open>newpassword123\<close>.
\<close>

theorem update_stores_plaintext_password:
  "UsersService_update [alice, bob] 1 new_password
     = (Inr (alice\<lparr>password := ''newpassword123''\<rparr>), [alice\<lparr>password := ''newpassword123''\<rparr>, bob])
   \<and> UsersController_updateProfile [alice, bob] (Some \<lparr>req_id = 1\<rparr>) new_password
     = (Inr (alice\<lparr>password := ''newpassword123''\<rparr>), [alice\<lparr>password := ''newpassword123''\<rparr>, bob])
   \<and> users_findOne_id [alice\<lparr>password := ''newpassword123''\<rparr>, bob] 1
     = Some (alice\<lparr>password := ''newpassword123''\<rparr>)
   \<and> password (alice\<lparr>password := ''newpassword123''\<rparr>) = ''newpassword123''"
  by (simp add: UsersService_update_def UsersController_updateProfile_def
      UsersService_findById_def users_findOne_id_def users_update_def users_write_def
      username_taken_def assign_user_def or_else_def new_password_def alice_def bob_def)

subsection \<open>Registration\<close>

lemma UsersController_createUser_valid:
  assumes "cu_username body \<noteq> []" and "cu_password body \<noteq> []"
    and "cu_username body \<notin> set (map username users)"
  shows "UsersController_createUser hash users body
           = Inr (\<lparr> user_id = fresh_id (map user_id users), username = cu_username body,
                    password = hash (cu_password body) 10, authorPseudonym = cu_username body \<rparr>,
                  users @ [\<lparr> user_id = fresh_id (map user_id users), username = cu_username body,
                    password = hash (cu_password body) 10, authorPseudonym = cu_username body \<rparr>])"
  using assms
  by (simp add: UsersController_createUser_def UsersService_create_def truthy_def
      users_save_def or_else_def Let_def)

lemma UsersController_createUser_failure:
  "UsersController_createUser hash users body = Inl e \<Longrightarrow>
     e = InternalServerErrorException ''An error occurred while creating the user''"
  by (auto simp: UsersController_createUser_def try_catch_def split: sum.splits)

text \<open>No registration request at all, valid or not, is answered with
  \<open>UnauthorizedException\<close>.\<close>

lemma POST_users_never_Unauthorized:
  "POST_users hash verify users authorization body \<noteq> Inl (UnauthorizedException m)"
  using UsersController_createUser_failure [of hash users body "UnauthorizedException m"]
  by (auto simp: POST_users_def users_route_bearer_def)

text \<open>
  C4. A registration request with a non-empty username that no user holds yet and a
  non-empty password returns the created user, whose pseudonym is the username and whose
  password is the digest, whatever the Authorization header and also without one; it
  does not fail with \<open>UnauthorizedException\<close>.
\<close>

theorem registration_needs_no_bearer:
  assumes "cu_username body \<noteq> []" and "cu_password body \<noteq> []"
    and "cu_username body \<notin> set (map username users)"
  shows "POST_users hash verify users authorization body
           = Inr (\<lparr> user_id = fresh_id (map user_id users), username = cu_username body,
                    password = hash (cu_password body) 10, authorPseudonym = cu_username body \<rparr>,
                  users @ [\<lparr> user_id = fresh_id (map user_id users), username = cu_username body,
                    password = hash (cu_password body) 10, authorPseudonym = cu_username body \<rparr>])
       \<and> (\<forall>m. POST_users hash verify users authorization body \<noteq> Inl (UnauthorizedException m))"
  using UsersController_createUser_valid [OF assms]
  by (simp add: POST_users_def users_route_bearer_def)

theorem registration_needs_no_bearer_witness:
  "cu_username testuser \<noteq> [] \<and> cu_password testuser \<noteq> []
   \<and> cu_username testuser \<notin> set (map username [alice, bob])
   \<and> POST_users toy_hash (\<lambda>token. None) [alice, bob] None testuser
       = Inr (\<lparr> user_id = 3, username = ''testuser'', password = ''$2b$password123'',
                authorPseudonym = ''testuser'' \<rparr>,
              [alice, bob, \<lparr> user_id = 3, username = ''testuser'', password = ''$2b$password123'',
                authorPseudonym = ''testuser'' \<rparr>])"
proof -
  have a: "cu_username testuser \<noteq> []" and b: "cu_password testuser \<noteq> []"
    by (simp_all add: testuser_def)
  have c: "cu_username testuser \<notin> set (map username [alice, bob])"
    by (simp add: testuser_def alice_def bob_def)
  have i: "fresh_id (map user_id [alice, bob]) = 3"
    by (simp add: fresh_id_def alice_def bob_def)
  from registration_needs_no_bearer [OF a b c, of toy_hash "\<lambda>token. None" None] a b c i
  show ?thesis by (simp add: testuser_def toy_hash_def)
qed

subsection \<open>Logging in\<close>

text \<open>
  C6. A login with a username that the users table does not hold and a login with a
  username it holds and a password that does not match the stored digest fail with the
  same exception, an \<open>UnauthorizedException\<close> with the message
  \<open>Invalid username or password\<close>.
\<close>

theorem login_failures_indistinguishable:
  assumes "n1 \<notin> set (map username users1)"
    and "users_findOne_username users2 n2 = Some user" and "\<not> compare pass2 (password user)"
  shows "AuthService_validateUser compare users1 n1 pass1
           = Inl (UnauthorizedException ''Invalid username or password'')
       \<and> AuthService_validateUser compare users2 n2 pass2
           = Inl (UnauthorizedException ''Invalid username or password'')
       \<and> AuthService_validateUser compare users1 n1 pass1
           = AuthService_validateUser compare users2 n2 pass2"
  using assms users_findOne_username_absent [OF assms(1)]
  by (simp add: AuthService_validateUser_def UsersService_findByUsername_def)

theorem login_failures_indistinguishable_witness:
  "''mallory'' \<notin> set (map username [alice, bob])
   \<and> users_findOne_username [alice, bob] ''alice'' = Some alice
   \<and> \<not> toy_compare ''wrongpassword'' (password alice)
   \<and> AuthService_validateUser toy_compare [alice, bob] ''mallory'' ''password123''
       = Inl (UnauthorizedException ''Invalid username or password'')
   \<and> AuthService_validateUser toy_compare [alice, bob] ''alice'' ''wrongpassword''
       = Inl (UnauthorizedException ''Invalid username or password'')"
proof -
  have a: "''mallory'' \<notin> set (map username [alice, bob])"
    by (simp add: alice_def bob_def)
  have b: "users_findOne_username [alice, bob] ''alice'' = Some alice"
    by (simp add: users_findOne_username_def alice_def)
  have c: "\<not> toy_compare ''wrongpassword'' (password alice)"
    by (simp add: toy_compare_def alice_def)
  from login_failures_indistinguishable [of "''mallory''" "[alice, bob]" "[alice, bob]" "''alice''"
      alice toy_compare "''wrongpassword''" "''password123''", OF a b c] a b c
  show ?thesis by simp
qed

end
